theory Spec2Isabelle
  imports Main "HOL-Library.Word" "HOL-Library.Monad_Syntax"
begin

section \<open>The Optional iterator of graph/optional\_iterator.go\<close>

text \<open>
  The file defines one type, \<open>OptionalIterator\<close>, and its methods. An Optional
  iterator wraps one sub-iterator behind the \<open>Iterator\<close> interface; every method
  reaches the sub-iterator only through that interface. The embedding follows the Go
  text line by line:
  \<^item> a pointer to an \<open>OptionalIterator\<close> is an index into the list of allocated
    structs (\<open>objs\<close>); a pointer that indexes no struct is the nil pointer;
  \<^item> a value of interface or pointer type that the code receives (the sub-iterator,
    what the sub-iterator's \<open>Clone\<close>, \<open>Optimize\<close> and \<open>GetStats\<close> return, a
    \<open>TSVal\<close>) is an \<open>option\<close>: \<open>None\<close> is Go's nil;
  \<^item> a method returns \<open>None\<close> where Go panics on a nil dereference, and
    \<open>Some (result, state)\<close> where it returns;
  \<^item> the sub-iterators live in a world \<open>'w\<close> of their own, which only the methods
    of the interface read and change; these methods are a parameter of the model
    (the record \<open>Iterator\<close>) and are taken to return.
  \<open>DebugString\<close> renders the node as text, changes nothing and writes no log; it is
  left out.
\<close>

subsection \<open>Values, statistics, the diagnostic log\<close>

text \<open>\<open>TSVal\<close> is an empty interface: any value, or nil.\<close>

type_synonym 'v TSVal = "'v option"

type_synonym int64 = "64 word"

text \<open>
  \<open>IteratorStats\<close> is declared outside this file. \<open>GetStats\<close> below converts
  its \<open>NextCost\<close> to \<open>int64\<close>, which fixes that field; the types of \<open>CheckCost\<close>
  and \<open>Size\<close> are copied from the sub-iterator's answer and stay parameters.
\<close>

record ('c, 'z) IteratorStats =
  CheckCost :: 'c
  NextCost :: int64
  Size :: 'z

text \<open>
  The largest value an \<open>int64\<close> holds, \<open>2^63 - 1\<close>.
\<close>

definition MaxInt64 :: int64 where
  "MaxInt64 = 0x7FFFFFFFFFFFFFFF"

text \<open>
  The glog library keeps a log of messages, each with a severity. \<open>Errorln\<close> writes
  one message of severity ERROR and returns; only a FATAL message ends the process.
\<close>

datatype severity = INFO | WARNING | ERROR | FATAL

type_synonym ptr = nat

subsection \<open>The structs\<close>

text \<open>
  Modelled from the spec: the struct \<open>BaseIterator\<close>, which \<open>OptionalIterator\<close>
  embeds, and its helpers \<open>BaseIteratorInit\<close>, \<open>Tags\<close> and \<open>CopyTagsFrom\<close> are
  declared outside this file. The spec gives the base state of every node as the
  tags it binds (an ordered collection of names), the last value checked or produced,
  and whether the node supports enumeration.
\<close>

record 'v BaseIterator =
  Last :: "'v TSVal"
  tags :: "string list"
  nextable :: bool

text \<open>
  \<^verbatim>\<open>type OptionalIterator struct { BaseIterator; subIt Iterator; lastCheck bool }\<close>
\<close>

record ('h, 'v) OptionalIterator = "'v BaseIterator" +
  subIt :: "'h option"
  lastCheck :: bool

text \<open>
  The methods of the \<open>Iterator\<close> interface that this file calls on a sub-iterator,
  as functions of the sub-iterator's handle and of the world of sub-iterators.
  \<open>TagResults\<close> receives the output mapping and returns it as the call left it.
\<close>

record ('h, 'w, 'v, 'c, 'z) Iterator =
  iReset :: "'h \<Rightarrow> 'w \<Rightarrow> 'w"
  iClose :: "'h \<Rightarrow> 'w \<Rightarrow> 'w"
  iClone :: "'h \<Rightarrow> 'w \<Rightarrow> 'h option \<times> 'w"
  iNextResult :: "'h \<Rightarrow> 'w \<Rightarrow> bool \<times> 'w"
  iCheck :: "'h \<Rightarrow> 'v TSVal \<Rightarrow> 'w \<Rightarrow> bool \<times> 'w"
  iTagResults :: "'h \<Rightarrow> (string \<rightharpoonup> 'v TSVal) \<Rightarrow> 'w \<Rightarrow> (string \<rightharpoonup> 'v TSVal) \<times> 'w"
  iOptimize :: "'h \<Rightarrow> 'w \<Rightarrow> ('h option \<times> bool) \<times> 'w"
  iGetStats :: "'h \<Rightarrow> 'w \<Rightarrow> ('c, 'z) IteratorStats option \<times> 'w"

text \<open>
  The state of the program: the allocated \<open>OptionalIterator\<close> structs, the world of
  the sub-iterators, and the messages given to glog.
\<close>

record ('h, 'w, 'v) state =
  objs :: "('h, 'v) OptionalIterator list"
  world :: 'w
  glog :: "(severity \<times> string) list"

definition deref :: "('h, 'w, 'v) state \<Rightarrow> ptr \<Rightarrow> ('h, 'v) OptionalIterator option" where
  "deref s p = (if p < length (objs s) then Some (objs s ! p) else None)"

definition store :: "ptr \<Rightarrow> ('h, 'v) OptionalIterator \<Rightarrow> ('h, 'w, 'v) state \<Rightarrow> ('h, 'w, 'v) state" where
  "store p x s = s\<lparr>objs := (objs s)[p := x]\<rparr>"

definition alloc :: "('h, 'v) OptionalIterator \<Rightarrow> ('h, 'w, 'v) state \<Rightarrow> ptr \<times> ('h, 'w, 'v) state" where
  "alloc x s = (length (objs s), s\<lparr>objs := objs s @ [x]\<rparr>)"

definition Errorln :: "string \<Rightarrow> ('h, 'w, 'v) state \<Rightarrow> ('h, 'w, 'v) state" where
  "Errorln msg s = s\<lparr>glog := glog s @ [(ERROR, msg)]\<rparr>"

subsection \<open>The helpers of the base state\<close>

text \<open>
  Modelled from the spec: \<open>BaseIteratorInit\<close> prepares the base state of a new node:
  no tag and no last value. The spec gives \<open>nextable\<close> node by node;
  \<open>NewOptionalIterator\<close> overwrites it on its next line, so the value the
  initialiser leaves there never shows.
\<close>

definition BaseIteratorInit :: "('v, 'm) BaseIterator_scheme \<Rightarrow> ('v, 'm) BaseIterator_scheme" where
  "BaseIteratorInit b = b\<lparr>Last := None, tags := [], nextable := True\<rparr>"

text \<open>Modelled from the spec: \<open>Tags\<close> returns the tags of the node.\<close>

definition Tags :: "('v, 'm) BaseIterator_scheme \<Rightarrow> string list" where
  "Tags b = tags b"

text \<open>
  Modelled from the spec: \<open>CopyTagsFrom\<close> copies the tags of the other node onto
  this one, after the tags it has.
\<close>

definition CopyTagsFrom :: "('v, 'm) BaseIterator_scheme \<Rightarrow> ('v, 'n) BaseIterator_scheme \<Rightarrow> ('v, 'm) BaseIterator_scheme" where
  "CopyTagsFrom b other = b\<lparr>tags := tags b @ Tags other\<rparr>"

subsection \<open>The methods of OptionalIterator\<close>

text \<open>
  \<^verbatim>\<open>
  func NewOptionalIterator(it Iterator) *OptionalIterator {
      var o OptionalIterator
      BaseIteratorInit(&o.BaseIterator)
      o.nextable = false
      o.subIt = it
      return &o
  }
  \<close>
  \<open>var o\<close> (here \<open>obj\<close>) is the zero struct; returning its address allocates it.
\<close>

definition NewOptionalIterator :: "'h option \<Rightarrow> ('h, 'w, 'v) state \<Rightarrow> ptr \<times> ('h, 'w, 'v) state" where
  "NewOptionalIterator it s =
     (let obj = \<lparr>Last = None, tags = [], nextable = False, subIt = None, lastCheck = False\<rparr>;
          obj = BaseIteratorInit obj;
          obj = obj\<lparr>nextable := False\<rparr>;
          obj = obj\<lparr>subIt := it\<rparr>
      in alloc obj s)"

text \<open>
  \<^verbatim>\<open>
  func (it *OptionalIterator) Reset() {
      it.subIt.Reset()
      it.lastCheck = false
  }
  \<close>
\<close>

definition Reset :: "('h, 'w, 'v, 'c, 'z) Iterator \<Rightarrow> ptr \<Rightarrow> ('h, 'w, 'v) state \<Rightarrow> (unit \<times> ('h, 'w, 'v) state) option" where
  "Reset M p s = do {
     it \<leftarrow> deref s p;
     h \<leftarrow> subIt it;
     let w = iReset M h (world s);
     Some ((), store p (it\<lparr>lastCheck := False\<rparr>) (s\<lparr>world := w\<rparr>))
   }"

text \<open>
  \<^verbatim>\<open>
  func (it *OptionalIterator) Close() {
      it.subIt.Close()
  }
  \<close>
\<close>

definition Close :: "('h, 'w, 'v, 'c, 'z) Iterator \<Rightarrow> ptr \<Rightarrow> ('h, 'w, 'v) state \<Rightarrow> (unit \<times> ('h, 'w, 'v) state) option" where
  "Close M p s = do {
     it \<leftarrow> deref s p;
     h \<leftarrow> subIt it;
     let w = iClose M h (world s);
     Some ((), s\<lparr>world := w\<rparr>)
   }"

text \<open>
  \<^verbatim>\<open>
  func (it *OptionalIterator) Clone() Iterator {
      out := NewOptionalIterator(it.subIt.Clone())
      out.CopyTagsFrom(it)
      return out
  }
  \<close>
\<close>

definition Clone :: "('h, 'w, 'v, 'c, 'z) Iterator \<Rightarrow> ptr \<Rightarrow> ('h, 'w, 'v) state \<Rightarrow> (ptr \<times> ('h, 'w, 'v) state) option" where
  "Clone M p s = do {
     it \<leftarrow> deref s p;
     h \<leftarrow> subIt it;
     let (c, w) = iClone M h (world s);
     let (out, s1) = NewOptionalIterator c (s\<lparr>world := w\<rparr>);
     obj \<leftarrow> deref s1 out;
     other \<leftarrow> deref s1 p;
     Some (out, store out (CopyTagsFrom obj other) s1)
   }"

text \<open>
  \<^verbatim>\<open>
  func (it *OptionalIterator) Next() (TSVal, bool) {
      glog.Errorln("Nexting an un-nextable iterator")
      return nil, false
  }
  \<close>
  The receiver is not read.
\<close>

definition Next :: "ptr \<Rightarrow> ('h, 'w, 'v) state \<Rightarrow> (('v TSVal \<times> bool) \<times> ('h, 'w, 'v) state) option" where
  "Next p s = Some ((None, False), Errorln ''Nexting an un-nextable iterator'' s)"

text \<open>
  \<^verbatim>\<open>
  func (it *OptionalIterator) NextResult() bool {
      if it.lastCheck {
          return it.subIt.NextResult()
      }
      return false
  }
  \<close>
\<close>

definition NextResult :: "('h, 'w, 'v, 'c, 'z) Iterator \<Rightarrow> ptr \<Rightarrow> ('h, 'w, 'v) state \<Rightarrow> (bool \<times> ('h, 'w, 'v) state) option" where
  "NextResult M p s = do {
     it \<leftarrow> deref s p;
     if lastCheck it then do {
       h \<leftarrow> subIt it;
       let (b, w) = iNextResult M h (world s);
       Some (b, s\<lparr>world := w\<rparr>)
     } else Some (False, s)
   }"

text \<open>
  \<^verbatim>\<open>
  func (it *OptionalIterator) Check(val TSVal) bool {
      checked := it.subIt.Check(val)
      it.lastCheck = checked
      it.Last = val
      return true
  }
  \<close>
\<close>

definition Check :: "('h, 'w, 'v, 'c, 'z) Iterator \<Rightarrow> 'v TSVal \<Rightarrow> ptr \<Rightarrow> ('h, 'w, 'v) state \<Rightarrow> (bool \<times> ('h, 'w, 'v) state) option" where
  "Check M val p s = do {
     it \<leftarrow> deref s p;
     h \<leftarrow> subIt it;
     let (checked, w) = iCheck M h val (world s);
     let it = it\<lparr>lastCheck := checked\<rparr>;
     let it = it\<lparr>Last := val\<rparr>;
     Some (True, store p it (s\<lparr>world := w\<rparr>))
   }"

text \<open>
  \<^verbatim>\<open>
  func (it *OptionalIterator) TagResults(out *map[string]TSVal) {
      if it.lastCheck == false {
          return
      }
      it.subIt.TagResults(out)
  }
  \<close>
  The result is the output mapping as the call left it.
\<close>

definition TagResults :: "('h, 'w, 'v, 'c, 'z) Iterator \<Rightarrow> (string \<rightharpoonup> 'v TSVal) \<Rightarrow> ptr \<Rightarrow> ('h, 'w, 'v) state \<Rightarrow> ((string \<rightharpoonup> 'v TSVal) \<times> ('h, 'w, 'v) state) option" where
  "TagResults M out p s = do {
     it \<leftarrow> deref s p;
     if lastCheck it = False then Some (out, s)
     else do {
       h \<leftarrow> subIt it;
       let (out', w) = iTagResults M h out (world s);
       Some (out', s\<lparr>world := w\<rparr>)
     }
   }"

text \<open>
  \<^verbatim>\<open>func (it *OptionalIterator) Type() string { return "optional" }\<close>
\<close>

definition Type :: "ptr \<Rightarrow> ('h, 'w, 'v) state \<Rightarrow> (string \<times> ('h, 'w, 'v) state) option" where
  "Type p s = Some (''optional'', s)"

text \<open>
  \<^verbatim>\<open>
  func (it *OptionalIterator) Optimize() (Iterator, bool) {
      newSub, changed := it.subIt.Optimize()
      if changed {
          it.subIt.Close()
          it.subIt = newSub
      }
      return it, false
  }
  \<close>
  The iterator returned is the receiver, as a pointer.
\<close>

definition Optimize :: "('h, 'w, 'v, 'c, 'z) Iterator \<Rightarrow> ptr \<Rightarrow> ('h, 'w, 'v) state \<Rightarrow> ((ptr \<times> bool) \<times> ('h, 'w, 'v) state) option" where
  "Optimize M p s = do {
     it \<leftarrow> deref s p;
     h \<leftarrow> subIt it;
     let ((newSub, changed), w) = iOptimize M h (world s);
     if changed then do {
       let w = iClose M h w;
       Some ((p, False), store p (it\<lparr>subIt := newSub\<rparr>) (s\<lparr>world := w\<rparr>))
     } else Some ((p, False), s\<lparr>world := w\<rparr>)
   }"

text \<open>
  \<^verbatim>\<open>
  func (it *OptionalIterator) GetStats() *IteratorStats {
      subStats := it.subIt.GetStats()
      return &IteratorStats{
          CheckCost: subStats.CheckCost,
          NextCost:  int64(1 << 62),
          Size:      subStats.Size,
      }
  }
  \<close>
  \<open>1 << 62\<close> is an untyped constant, the integer \<open>2^62\<close>, converted to \<open>int64\<close>.
\<close>

definition GetStats :: "('h, 'w, 'v, 'c, 'z) Iterator \<Rightarrow> ptr \<Rightarrow> ('h, 'w, 'v) state \<Rightarrow> (('c, 'z) IteratorStats \<times> ('h, 'w, 'v) state) option" where
  "GetStats M p s = do {
     it \<leftarrow> deref s p;
     h \<leftarrow> subIt it;
     let (r, w) = iGetStats M h (world s);
     subStats \<leftarrow> r;
     Some (\<lparr>CheckCost = CheckCost subStats,
            NextCost = word_of_int (push_bit 62 1),
            Size = Size subStats\<rparr>, s\<lparr>world := w\<rparr>)
   }"

subsection \<open>Calls through the interface\<close>

text \<open>
  A caller holds an Optional iterator as an \<open>Iterator\<close> and calls its methods one
  after the other. \<open>call\<close> names a method with its arguments, \<open>invoke\<close> is the
  state a call leaves (\<open>None\<close> when it panics), and \<open>run\<close> makes a list of calls,
  each on the pointer paired with it, stopping at the first panic.
\<close>

datatype 'v call =
    CallReset
  | CallClose
  | CallClone
  | CallNext
  | CallNextResult
  | CallCheck "'v TSVal"
  | CallTagResults "string \<rightharpoonup> 'v TSVal"
  | CallType
  | CallOptimize
  | CallGetStats

fun invoke :: "('h, 'w, 'v, 'c, 'z) Iterator \<Rightarrow> ptr \<times> 'v call \<Rightarrow> ('h, 'w, 'v) state \<Rightarrow> ('h, 'w, 'v) state option" where
  "invoke M (p, CallReset) s = map_option snd (Reset M p s)"
| "invoke M (p, CallClose) s = map_option snd (Close M p s)"
| "invoke M (p, CallClone) s = map_option snd (Clone M p s)"
| "invoke M (p, CallNext) s = map_option snd (Next p s)"
| "invoke M (p, CallNextResult) s = map_option snd (NextResult M p s)"
| "invoke M (p, CallCheck v) s = map_option snd (Check M v p s)"
| "invoke M (p, CallTagResults out) s = map_option snd (TagResults M out p s)"
| "invoke M (p, CallType) s = map_option snd (Type p s)"
| "invoke M (p, CallOptimize) s = map_option snd (Optimize M p s)"
| "invoke M (p, CallGetStats) s = map_option snd (GetStats M p s)"

fun run :: "('h, 'w, 'v, 'c, 'z) Iterator \<Rightarrow> (ptr \<times> 'v call) list \<Rightarrow> ('h, 'w, 'v) state \<Rightarrow> ('h, 'w, 'v) state option" where
  "run M [] s = Some s"
| "run M (c # cs) s = (case invoke M c s of None \<Rightarrow> None | Some s' \<Rightarrow> run M cs s')"

fun is_Check :: "'v call \<Rightarrow> bool" where
  "is_Check (CallCheck v) = True"
| "is_Check c = False"

fun is_Next :: "'v call \<Rightarrow> bool" where
  "is_Next CallNext = True"
| "is_Next c = False"

subsection \<open>An example sub-iterator\<close>

text \<open>
  The concrete instances below need a sub-iterator. This one is the fixed-set iterator
  of the spec's end-to-end scenario: it checks membership in a list of values and binds
  its tags to the value last checked. The world is the list of these iterators and a
  handle is an index into it. \<open>fx_more\<close> counts the further results that
  \<open>NextResult\<close> still announces. \<open>Optimize\<close> replaces an iterator over no value
  by a new one and keeps every other.
\<close>

record fixed_it =
  fx_values :: "nat list"
  fx_tags :: "string list"
  fx_last :: "nat TSVal"
  fx_more :: nat
  fx_closed :: bool

definition fixed_upd :: "nat \<Rightarrow> (fixed_it \<Rightarrow> fixed_it) \<Rightarrow> fixed_it list \<Rightarrow> fixed_it list" where
  "fixed_upd h f w = (if h < length w then w[h := f (w ! h)] else w)"

definition fixed_get :: "fixed_it list \<Rightarrow> nat \<Rightarrow> fixed_it" where
  "fixed_get w h =
     (if h < length w then w ! h
      else \<lparr>fx_values = [], fx_tags = [], fx_last = None, fx_more = 0, fx_closed = True\<rparr>)"

definition fixed :: "(nat, fixed_it list, nat, nat, nat) Iterator" where
  "fixed = \<lparr>
     iReset = (\<lambda>h w. fixed_upd h (\<lambda>f. f\<lparr>fx_last := None, fx_more := 0\<rparr>) w),
     iClose = (\<lambda>h w. fixed_upd h (\<lambda>f. f\<lparr>fx_closed := True\<rparr>) w),
     iClone = (\<lambda>h w. (Some (length w),
                w @ [(fixed_get w h)\<lparr>fx_last := None, fx_more := 0, fx_closed := False\<rparr>])),
     iNextResult = (\<lambda>h w. (0 < fx_more (fixed_get w h),
                fixed_upd h (\<lambda>f. f\<lparr>fx_more := fx_more f - 1\<rparr>) w)),
     iCheck = (\<lambda>h v w. (case v of None \<Rightarrow> False | Some x \<Rightarrow> x \<in> set (fx_values (fixed_get w h)),
                fixed_upd h (\<lambda>f. f\<lparr>fx_last := v\<rparr>) w)),
     iTagResults = (\<lambda>h out w.
                (fold (\<lambda>t m. m(t \<mapsto> fx_last (fixed_get w h))) (fx_tags (fixed_get w h)) out, w)),
     iOptimize = (\<lambda>h w. if fx_values (fixed_get w h) = []
                then ((Some (length w), True), w @ [fixed_get w h])
                else ((Some h, False), w)),
     iGetStats = (\<lambda>h w. (Some \<lparr>CheckCost = 1, NextCost = 7,
                Size = length (fx_values (fixed_get w h))\<rparr>, w))
   \<rparr>"

text \<open>
  One Optional iterator, tagged \<open>opt\<close>, over the fixed set \<open>{10, 20}\<close> tagged \<open>x\<close>;
  the second fixed iterator is over no value.
\<close>

definition ex_world :: "fixed_it list" where
  "ex_world =
     [\<lparr>fx_values = [10, 20], fx_tags = [''x''], fx_last = None, fx_more = 1, fx_closed = False\<rparr>,
      \<lparr>fx_values = [], fx_tags = [''y''], fx_last = None, fx_more = 0, fx_closed = False\<rparr>]"

definition ex_opt :: "(nat, nat) OptionalIterator" where
  "ex_opt = \<lparr>Last = None, tags = [''opt''], nextable = False, subIt = Some 0, lastCheck = False\<rparr>"

definition ex_state :: "(nat, fixed_it list, nat) state" where
  "ex_state = \<lparr>objs = [ex_opt], world = ex_world, glog = []\<rparr>"

text \<open>
  The state \<open>ex_state\<close> after \<open>Check\<close> of 10, which the fixed set holds, and
  after \<open>Check\<close> of 30, which it does not hold; and a state whose Optional iterator
  wraps the second fixed iterator.
\<close>

definition ex_hit :: "(nat, fixed_it list, nat) state" where
  "ex_hit = \<lparr>objs = [ex_opt\<lparr>Last := Some 10, lastCheck := True\<rparr>],
             world = fixed_upd 0 (\<lambda>f. f\<lparr>fx_last := Some 10\<rparr>) ex_world, glog = []\<rparr>"

definition ex_miss :: "(nat, fixed_it list, nat) state" where
  "ex_miss = \<lparr>objs = [ex_opt\<lparr>Last := Some 30, lastCheck := False\<rparr>],
             world = fixed_upd 0 (\<lambda>f. f\<lparr>fx_last := Some 30\<rparr>) ex_world, glog = []\<rparr>"

definition ex_empty :: "(nat, fixed_it list, nat) state" where
  "ex_empty = ex_state\<lparr>objs := [ex_opt\<lparr>subIt := Some 1\<rparr>]\<rparr>"

section \<open>Properties\<close>

subsection \<open>Pointers and the store\<close>

lemma deref_Some_iff: "deref s p = Some x \<longleftrightarrow> p < length (objs s) \<and> objs s ! p = x"
  by (auto simp: deref_def)

lemma deref_store:
  "deref (store q x s) p = (if p = q then map_option (\<lambda>y. x) (deref s q) else deref s p)"
  by (simp add: deref_def store_def)

lemma deref_world_update: "deref (s\<lparr>world := w\<rparr>) p = deref s p"
  by (simp add: deref_def)

lemma deref_glog_update: "deref (s\<lparr>glog := l\<rparr>) p = deref s p"
  by (simp add: deref_def)

lemma world_store: "world (store p x s) = world s"
  by (simp add: store_def)

lemma glog_store: "glog (store p x s) = glog s"
  by (simp add: store_def)


lemmas ops = Reset_def Close_def Clone_def Next_def NextResult_def Check_def TagResults_def
  Type_def Optimize_def GetStats_def

lemmas ex_defs = ex_state_def ex_opt_def ex_world_def ex_hit_def ex_miss_def
  fixed_def fixed_get_def fixed_upd_def deref_def store_def alloc_def

lemma Check_ex_hit: "Check fixed (Some 10) 0 ex_state = Some (True, ex_hit)"
  by (simp add: Check_def ex_defs)

lemma Check_ex_miss: "Check fixed (Some 30) 0 ex_state = Some (True, ex_miss)"
  by (simp add: Check_def ex_defs)

subsection \<open>What a call leaves alone\<close>

text \<open>\<open>Clone\<close> on a live receiver with a sub-iterator, computed.\<close>

lemma Clone_eq:
  assumes "deref s p = Some it" and "subIt it = Some h"
  shows "Clone M p s = Some (length (objs s),
           s\<lparr>objs := objs s @ [\<lparr>Last = None, tags = tags it, nextable = False,
                                   subIt = fst (iClone M h (world s)), lastCheck = False\<rparr>],
             world := snd (iClone M h (world s))\<rparr>)"
  using assms
  by (auto simp: Clone_def NewOptionalIterator_def BaseIteratorInit_def CopyTagsFrom_def Tags_def
      alloc_def deref_def store_def Let_def nth_append split: prod.splits if_splits)

text \<open>Only \<open>Next\<close> writes to the log, and it writes one message.\<close>

lemma invoke_glog:
  "invoke M (p, c) s = Some s' \<Longrightarrow>
   glog s' = (if is_Next c then glog s @ [(ERROR, ''Nexting an un-nextable iterator'')] else glog s)"
  by (cases c)
    (auto simp: ops NewOptionalIterator_def alloc_def Errorln_def glog_store Let_def
      split: Option.bind_splits if_splits prod.splits)

text \<open>A call on one pointer leaves the struct behind every other pointer as it is.\<close>

lemma invoke_frame:
  "invoke M (q, c) s = Some s' \<Longrightarrow> q \<noteq> p \<Longrightarrow> deref s p = Some it \<Longrightarrow> deref s' p = Some it"
  by (cases c)
    (auto simp: ops NewOptionalIterator_def alloc_def Errorln_def deref_def store_def Let_def nth_append
      split: Option.bind_splits if_splits prod.splits)

lemma run_frame:
  "run M cs s = Some s' \<Longrightarrow> (\<And>c. c \<in> set cs \<Longrightarrow> fst c \<noteq> p) \<Longrightarrow> deref s p = Some it
   \<Longrightarrow> deref s' p = Some it"
proof (induction cs arbitrary: s)
  case Nil
  then show ?case by simp
next
  case (Cons c cs)
  obtain q k where c: "c = (q, k)" by (cases c)
  from Cons.prems(1) obtain s1 where s1: "invoke M c s = Some s1" and rest: "run M cs s1 = Some s'"
    by (auto split: option.splits)
  have "q \<noteq> p" using Cons.prems(2) [of c] c by simp
  with s1 c Cons.prems(3) have "deref s1 p = Some it"
    using invoke_frame by blast
  with Cons.IH [OF rest] Cons.prems(2) show ?case by simp
qed

text \<open>A false \<open>lastCheck\<close> stays false under every call but a \<open>Check\<close> on that pointer.\<close>

lemma invoke_lastCheck_False:
  "invoke M (q, c) s = Some s' \<Longrightarrow> (q = p \<Longrightarrow> \<not> is_Check c) \<Longrightarrow> deref s p = Some it \<Longrightarrow> \<not> lastCheck it
   \<Longrightarrow> \<exists>it'. deref s' p = Some it' \<and> \<not> lastCheck it'"
  by (cases c)
    (auto simp: ops NewOptionalIterator_def alloc_def Errorln_def deref_def store_def Let_def nth_append nth_list_update
      split: Option.bind_splits if_splits prod.splits)

lemma run_lastCheck_False:
  "run M cs s = Some s' \<Longrightarrow> (\<And>c. (p, c) \<in> set cs \<Longrightarrow> \<not> is_Check c) \<Longrightarrow> deref s p = Some it
   \<Longrightarrow> \<not> lastCheck it \<Longrightarrow> \<exists>it'. deref s' p = Some it' \<and> \<not> lastCheck it'"
proof (induction cs arbitrary: s it)
  case Nil
  then show ?case by simp
next
  case (Cons c cs)
  obtain q k where c: "c = (q, k)" by (cases c)
  from Cons.prems(1) obtain s1 where s1: "invoke M c s = Some s1" and rest: "run M cs s1 = Some s'"
    by (auto split: option.splits)
  have "q = p \<Longrightarrow> \<not> is_Check k" using Cons.prems(2) [of k] c by simp
  with s1 c Cons.prems(3,4) obtain it1 where "deref s1 p = Some it1" "\<not> lastCheck it1"
    using invoke_lastCheck_False [of M q k s s1 p it] by blast
  with Cons.IH [OF rest] Cons.prems(2) show ?case by simp
qed

lemma NextResult_unchecked:
  "deref s p = Some it \<Longrightarrow> \<not> lastCheck it \<Longrightarrow> NextResult M p s = Some (False, s)"
  by (simp add: NextResult_def)

text \<open>No \<open>int64\<close> is above \<open>MaxInt64\<close>.\<close>

lemma MaxInt64_greatest: "sint (w :: int64) \<le> sint MaxInt64"
  using sint_lt [of w] by (simp add: MaxInt64_def)

subsection \<open>Check\<close>

text \<open>
  C1. For every value \<open>v\<close> and every sub-iterator \<open>h\<close>, \<open>Check\<close> on an Optional
  iterator that wraps \<open>h\<close> returns true, whatever the sub-iterator's \<open>Check\<close>
  answers; afterwards \<open>lastCheck\<close> holds the sub-iterator's answer for \<open>v\<close> and
  \<open>Last\<close> holds \<open>v\<close>. The sub-iterator's \<open>Check\<close> ran once, on \<open>v\<close>.
\<close>

theorem Check_always_true:
  assumes "deref s p = Some it" and "subIt it = Some h"
  shows "\<exists>s' it'. Check M v p s = Some (True, s') \<and> deref s' p = Some it'
           \<and> lastCheck it' = fst (iCheck M h v (world s)) \<and> Last it' = v
           \<and> world s' = snd (iCheck M h v (world s))"
  using assms
  by (simp add: Check_def deref_store deref_world_update world_store split: prod.splits)

text \<open>The fixed set does not hold 30: the sub-iterator answers false, \<open>Check\<close> true.\<close>

theorem Check_always_true_witness:
  "deref ex_state 0 = Some ex_opt \<and> subIt ex_opt = Some 0
   \<and> fst (iCheck fixed 0 (Some 30) (world ex_state)) = False
   \<and> (\<exists>s' it'. Check fixed (Some 30) 0 ex_state = Some (True, s') \<and> deref s' 0 = Some it'
           \<and> lastCheck it' = False \<and> Last it' = Some 30)"
  using Check_always_true [where s = ex_state and p = 0 and it = ex_opt and h = 0 and M = fixed
      and v = "Some 30"]
  by (simp add: Check_def ex_defs)


subsection \<open>NextResult\<close>

text \<open>
  C2. For every state of an Optional iterator: when \<open>lastCheck\<close> is true,
  \<open>NextResult\<close> returns what the sub-iterator's \<open>NextResult\<close> returns, and the
  state is the one that call leaves; when \<open>lastCheck\<close> is false, it returns false
  and the whole state, the sub-iterators' world included, is as before: the
  sub-iterator is not called.
\<close>

theorem NextResult_gated:
  assumes "deref s p = Some it"
  shows "(lastCheck it \<and> subIt it = Some h \<longrightarrow>
            NextResult M p s = Some (fst (iNextResult M h (world s)),
                                     s\<lparr>world := snd (iNextResult M h (world s))\<rparr>))
       \<and> (\<not> lastCheck it \<longrightarrow> NextResult M p s = Some (False, s))"
  using assms by (simp add: NextResult_def split: prod.splits)

text \<open>
  After the hit the fixed iterator announces one more result, and the Optional
  iterator passes it on; after the miss nothing moves.
\<close>

theorem NextResult_gated_witness:
  "deref ex_hit 0 = Some (ex_opt\<lparr>Last := Some 10, lastCheck := True\<rparr>)
   \<and> iNextResult fixed 0 (world ex_hit) = (True, fixed_upd 0 (\<lambda>f. f\<lparr>fx_more := 0\<rparr>) (world ex_hit))
   \<and> NextResult fixed 0 ex_hit
       = Some (True, ex_hit\<lparr>world := fixed_upd 0 (\<lambda>f. f\<lparr>fx_more := 0\<rparr>) (world ex_hit)\<rparr>)
   \<and> deref ex_miss 0 = Some (ex_opt\<lparr>Last := Some 30, lastCheck := False\<rparr>)
   \<and> NextResult fixed 0 ex_miss = Some (False, ex_miss)"
  using NextResult_gated [where s = ex_hit and p = 0 and M = fixed and h = 0
      and it = "ex_opt\<lparr>Last := Some 10, lastCheck := True\<rparr>"]
    NextResult_gated [where s = ex_miss and p = 0 and M = fixed and h = 0
      and it = "ex_opt\<lparr>Last := Some 30, lastCheck := False\<rparr>"]
  by (simp add: ex_defs)

subsection \<open>TagResults\<close>

text \<open>
  C3. For every output mapping: when \<open>lastCheck\<close> is false, \<open>TagResults\<close> returns
  with the mapping and the state as they were (the sub-iterator is not called and no
  key is written); when \<open>lastCheck\<close> is true, the mapping and the state are those
  that the sub-iterator's \<open>TagResults\<close> leaves, called on the same mapping.
\<close>

theorem TagResults_gated:
  assumes "deref s p = Some it"
  shows "(\<not> lastCheck it \<longrightarrow> TagResults M out p s = Some (out, s))
       \<and> (lastCheck it \<and> subIt it = Some h \<longrightarrow>
            TagResults M out p s = Some (fst (iTagResults M h out (world s)),
                                         s\<lparr>world := snd (iTagResults M h out (world s))\<rparr>))"
  using assms by (simp add: TagResults_def split: prod.splits)

text \<open>
  After the miss the fixed iterator would bind \<open>x\<close>, and the mapping stays empty;
  after the hit \<open>x\<close> is bound to 10.
\<close>

theorem TagResults_gated_witness:
  "deref ex_miss 0 = Some (ex_opt\<lparr>Last := Some 30, lastCheck := False\<rparr>)
   \<and> TagResults fixed Map.empty 0 ex_miss = Some (Map.empty, ex_miss)
   \<and> fst (iTagResults fixed 0 Map.empty (world ex_miss)) = [''x'' \<mapsto> Some 30]
   \<and> deref ex_hit 0 = Some (ex_opt\<lparr>Last := Some 10, lastCheck := True\<rparr>)
   \<and> TagResults fixed Map.empty 0 ex_hit = Some ([''x'' \<mapsto> Some 10], ex_hit)"
  using TagResults_gated [where s = ex_miss and p = 0 and M = fixed and h = 0 and out = Map.empty
      and it = "ex_opt\<lparr>Last := Some 30, lastCheck := False\<rparr>"]
    TagResults_gated [where s = ex_hit and p = 0 and M = fixed and h = 0 and out = Map.empty
      and it = "ex_opt\<lparr>Last := Some 10, lastCheck := True\<rparr>"]
  by (simp add: ex_defs)

text \<open>
  C9. \<open>TagResults\<close> binds neither the tags of the Optional iterator nor its
  \<open>Last\<close>: the mapping it leaves is the same whatever tags and last value the
  Optional iterator carries, and it is either the mapping received (\<open>lastCheck\<close>
  false) or the mapping that the sub-iterator's \<open>TagResults\<close> left (\<open>lastCheck\<close>
  true); the Optional iterator writes no entry of its own.
\<close>

theorem TagResults_own_tags_unbound:
  assumes "deref s p = Some it"
  shows "map_option fst (TagResults M out p (store p (it\<lparr>tags := ts, Last := v\<rparr>) s))
           = map_option fst (TagResults M out p s)
     \<and> (\<forall>out' s'. TagResults M out p s = Some (out', s') \<longrightarrow>
           (\<not> lastCheck it \<and> out' = out)
           \<or> (\<exists>h. lastCheck it \<and> subIt it = Some h \<and> out' = fst (iTagResults M h out (world s))))"
  using assms
  by (auto simp: TagResults_def deref_store world_store split: prod.splits Option.bind_splits)

text \<open>
  The Optional iterator of \<open>ex_hit\<close> carries the tag \<open>opt\<close> and the last value 10,
  and \<open>lastCheck\<close> is true: \<open>x\<close> is bound by the fixed iterator, \<open>opt\<close> is not
  bound.
\<close>

theorem TagResults_own_tags_unbound_witness:
  "deref ex_hit 0 = Some (ex_opt\<lparr>Last := Some 10, lastCheck := True\<rparr>)
   \<and> tags (ex_opt\<lparr>Last := Some 10, lastCheck := True\<rparr>) = [''opt'']
   \<and> (\<exists>out' s'. TagResults fixed Map.empty 0 ex_hit = Some (out', s')
         \<and> out' = fst (iTagResults fixed 0 Map.empty (world ex_hit))
         \<and> out' ''opt'' = None \<and> out' ''x'' = Some (Some 10))"
  using TagResults_own_tags_unbound [where s = ex_hit and p = 0 and M = fixed and out = Map.empty
      and it = "ex_opt\<lparr>Last := Some 10, lastCheck := True\<rparr>"]
  by (simp add: TagResults_def ex_defs)

subsection \<open>Next\<close>

text \<open>
  C4. Every call of \<open>Next\<close>, on any receiver and in any state, returns
  \<open>(nil, false)\<close> and gives glog one message of severity ERROR; it does not panic.
  Among the methods of the Optional iterator the log grows exactly under \<open>Next\<close>:
  a call that returns has changed the log if and only if it is a call of
  \<open>Next\<close>.
\<close>

theorem Next_reports_misuse:
  "Next p s = Some ((None, False), s\<lparr>glog := glog s @ [(ERROR, ''Nexting an un-nextable iterator'')]\<rparr>)
   \<and> (\<forall>M q c s'. invoke M (q, c) s = Some s' \<longrightarrow> (glog s' \<noteq> glog s) = is_Next c)"
  by (auto simp: Next_def Errorln_def dest: invoke_glog split: if_splits)

theorem Next_reports_misuse_witness:
  "Next 0 ex_state = Some ((None, False), ex_state\<lparr>glog := [(ERROR, ''Nexting an un-nextable iterator'')]\<rparr>)
   \<and> invoke fixed (0, CallCheck (Some 10)) ex_state = Some ex_hit
   \<and> glog ex_hit = glog ex_state"
proof -
  note th = Next_reports_misuse [where p = 0 and s = ex_state]
  have i: "invoke fixed (0, CallCheck (Some 10)) ex_state = Some ex_hit"
    by (simp add: Check_ex_hit)
  from th i have "(glog ex_hit \<noteq> glog ex_state) = is_Next (CallCheck (Some (10::nat)))"
    by blast
  moreover from th
  have "Next 0 ex_state =
      Some ((None, False), ex_state\<lparr>glog := glog ex_state @ [(ERROR, ''Nexting an un-nextable iterator'')]\<rparr>)"
    by blast
  ultimately show ?thesis using i by (simp add: ex_state_def)
qed

text \<open>
  C10. \<open>Next\<close> leaves every struct and the whole world of the sub-iterators as they
  were: after the call each pointer leads to the struct it led to, with the same
  \<open>lastCheck\<close>, \<open>Last\<close>, tags and sub-iterator, and no method of a sub-iterator
  has run.
\<close>

theorem Next_leaves_state:
  "\<exists>s'. Next p s = Some ((None, False), s') \<and> objs s' = objs s \<and> world s' = world s
     \<and> (\<forall>q. deref s' q = deref s q)"
  by (simp add: Next_def Errorln_def deref_def)


subsection \<open>Reset and construction\<close>

text \<open>
  C5. \<open>Reset\<close> on an Optional iterator that wraps \<open>h\<close> resets \<open>h\<close> and sets
  \<open>lastCheck\<close> to false, and \<open>NewOptionalIterator\<close> returns a struct whose
  \<open>lastCheck\<close> is false. After either, and after any further calls that all return
  and hold no \<open>Check\<close> on that pointer, \<open>NextResult\<close> returns false and leaves
  the state as it is.
\<close>

theorem Reset_clears_lastCheck:
  "(deref s p = Some it \<and> subIt it = Some h \<longrightarrow>
      (\<exists>s1. Reset M p s = Some ((), s1) \<and> world s1 = iReset M h (world s)
          \<and> deref s1 p = Some (it\<lparr>lastCheck := False\<rparr>)
          \<and> (\<forall>cs s2. (\<forall>c. (p, c) \<in> set cs \<longrightarrow> \<not> is_Check c) \<longrightarrow> run M cs s1 = Some s2
                \<longrightarrow> NextResult M p s2 = Some (False, s2))))
   \<and> (\<forall>sub q s1. NewOptionalIterator sub s = (q, s1) \<longrightarrow>
        (\<exists>obj. deref s1 q = Some obj \<and> \<not> lastCheck obj \<and> subIt obj = sub)
        \<and> (\<forall>cs s2. (\<forall>c. (q, c) \<in> set cs \<longrightarrow> \<not> is_Check c) \<longrightarrow> run M cs s1 = Some s2
                \<longrightarrow> NextResult M q s2 = Some (False, s2)))"
proof (intro conjI impI allI)
  assume a: "deref s p = Some it \<and> subIt it = Some h"
  define s1 where "s1 = store p (it\<lparr>lastCheck := False\<rparr>) (s\<lparr>world := iReset M h (world s)\<rparr>)"
  have r: "Reset M p s = Some ((), s1)"
    using a by (simp add: Reset_def s1_def)
  have d: "deref s1 p = Some (it\<lparr>lastCheck := False\<rparr>)"
    using a by (simp add: s1_def deref_store deref_world_update)
  have w: "world s1 = iReset M h (world s)"
    by (simp add: s1_def world_store)
  have n: "NextResult M p s2 = Some (False, s2)"
    if "\<forall>c. (p, c) \<in> set cs \<longrightarrow> \<not> is_Check c" and "run M cs s1 = Some s2" for cs s2
  proof -
    from run_lastCheck_False [OF that(2) _ d] that(1)
    obtain it' where "deref s2 p = Some it'" "\<not> lastCheck it'" by auto
    then show ?thesis by (rule NextResult_unchecked)
  qed
  from r d w n
  show "\<exists>s1. Reset M p s = Some ((), s1) \<and> world s1 = iReset M h (world s)
          \<and> deref s1 p = Some (it\<lparr>lastCheck := False\<rparr>)
          \<and> (\<forall>cs s2. (\<forall>c. (p, c) \<in> set cs \<longrightarrow> \<not> is_Check c) \<longrightarrow> run M cs s1 = Some s2
                \<longrightarrow> NextResult M p s2 = Some (False, s2))"
    by blast
next
  fix sub q s1
  assume n: "NewOptionalIterator sub s = (q, s1)"
  then show "\<exists>obj. deref s1 q = Some obj \<and> \<not> lastCheck obj \<and> subIt obj = sub"
    by (auto simp: NewOptionalIterator_def BaseIteratorInit_def alloc_def deref_def Let_def)
next
  fix sub q s1 cs s2
  assume n: "NewOptionalIterator sub s = (q, s1)"
    and c: "\<forall>c. (q, c) \<in> set cs \<longrightarrow> \<not> is_Check c" and r: "run M cs s1 = Some s2"
  from n obtain obj where d: "deref s1 q = Some obj" and l: "\<not> lastCheck obj"
    by (auto simp: NewOptionalIterator_def BaseIteratorInit_def alloc_def deref_def Let_def)
  from run_lastCheck_False [OF r _ d l] c
  obtain it' where "deref s2 q = Some it'" "\<not> lastCheck it'" by auto
  then show "NextResult M q s2 = Some (False, s2)" by (rule NextResult_unchecked)
qed

text \<open>
  In \<open>ex_hit\<close> the flag is true. \<open>Reset\<close> clears it; then \<open>TagResults\<close>,
  \<open>Optimize\<close> and \<open>Next\<close> run, and \<open>NextResult\<close> still returns false. A new
  Optional iterator over the first fixed iterator returns false too.
\<close>

theorem Reset_clears_lastCheck_witness:
  "deref ex_hit 0 = Some (ex_opt\<lparr>Last := Some 10, lastCheck := True\<rparr>)
   \<and> subIt (ex_opt\<lparr>Last := Some 10, lastCheck := True\<rparr>) = Some 0
   \<and> (\<exists>s1 s2. Reset fixed 0 ex_hit = Some ((), s1)
         \<and> deref s1 0 = Some (ex_opt\<lparr>Last := Some 10, lastCheck := False\<rparr>)
         \<and> NextResult fixed 0 s1 = Some (False, s1)
         \<and> run fixed [(0, CallTagResults Map.empty), (0, CallOptimize), (0, CallNext)] s1 = Some s2
         \<and> NextResult fixed 0 s2 = Some (False, s2))
   \<and> (\<exists>s1. NewOptionalIterator (Some 0) ex_hit = (1, s1)
         \<and> NextResult fixed 1 s1 = Some (False, s1))"
proof -
  note th = Reset_clears_lastCheck [where s = ex_hit and p = 0 and M = fixed and h = 0
      and it = "ex_opt\<lparr>Last := Some 10, lastCheck := True\<rparr>"]
  let ?cs = "[(0, CallTagResults Map.empty), (0, CallOptimize), (0, CallNext)] :: (nat \<times> nat call) list"
  have d: "deref ex_hit 0 = Some (ex_opt\<lparr>Last := Some 10, lastCheck := True\<rparr>)
      \<and> subIt (ex_opt\<lparr>Last := Some 10, lastCheck := True\<rparr>) = Some 0"
    by (simp add: ex_defs)
  with th obtain s1 where r: "Reset fixed 0 ex_hit = Some ((), s1)"
    and d1: "deref s1 0 = Some (ex_opt\<lparr>Last := Some 10, lastCheck := True, lastCheck := False\<rparr>)"
    and n: "\<forall>cs s2. (\<forall>c. (0, c) \<in> set cs \<longrightarrow> \<not> is_Check c) \<longrightarrow> run fixed cs s1 = Some s2
                \<longrightarrow> NextResult fixed 0 s2 = Some (False, s2)"
    by blast
  from n [rule_format, of "[]" s1] have n1: "NextResult fixed 0 s1 = Some (False, s1)"
    by simp
  from r have s1: "s1 = store 0 (ex_opt\<lparr>Last := Some 10, lastCheck := False\<rparr>)
      (ex_hit\<lparr>world := iReset fixed 0 (world ex_hit)\<rparr>)"
    by (simp add: Reset_def ex_defs)
  obtain s2 where r2: "run fixed ?cs s1 = Some s2"
    by (simp add: s1 ops Errorln_def ex_defs)
  have nc: "\<forall>c. (0, c) \<in> set ?cs \<longrightarrow> \<not> is_Check c"
    by auto
  from n nc r2 have n2: "NextResult fixed 0 s2 = Some (False, s2)"
    by blast
  from th obtain q s3 where c: "NewOptionalIterator (Some 0) ex_hit = (q, s3)"
    and n3: "NextResult fixed q s3 = Some (False, s3)"
    by (metis list.set(1) empty_iff run.simps(1) surj_pair)
  from c have "q = 1"
    by (simp add: NewOptionalIterator_def alloc_def ex_defs Let_def)
  with c n3 r d d1 n1 r2 n2 show ?thesis by auto
qed


subsection \<open>Clone\<close>

text \<open>
  C6. \<open>Clone\<close> on an Optional iterator that wraps \<open>h\<close> returns a pointer to a new
  struct (one that was not allocated before, so not the receiver) which wraps what
  the sub-iterator's \<open>Clone\<close> returned, carries the receiver's tags and has
  \<open>lastCheck\<close> false. The receiver's struct is as it was, and it stays so under
  any write to the struct of the clone and under any calls on pointers other than
  the receiver, \<open>Check\<close> on the clone among them: the receiver's \<open>lastCheck\<close>,
  \<open>Last\<close> and tags do not change. Whether the two wrapped sub-iterators share
  state is for the sub-iterator's own \<open>Clone\<close> to decide.
\<close>

theorem Clone_independent:
  assumes "deref s p = Some it" and "subIt it = Some h"
  shows "\<exists>q s'. Clone M p s = Some (q, s') \<and> q \<noteq> p \<and> deref s q = None
           \<and> deref s' q = Some \<lparr>Last = None, tags = tags it, nextable = False,
                                 subIt = fst (iClone M h (world s)), lastCheck = False\<rparr>
           \<and> world s' = snd (iClone M h (world s))
           \<and> deref s' p = Some it
           \<and> (\<forall>x. deref (store q x s') p = Some it)
           \<and> (\<forall>cs s''. (\<forall>c. c \<in> set cs \<longrightarrow> fst c \<noteq> p) \<longrightarrow> run M cs s' = Some s''
                 \<longrightarrow> deref s'' p = Some it)"
proof -
  define q where "q = length (objs s)"
  define s' where "s' = s\<lparr>objs := objs s @ [\<lparr>Last = None, tags = tags it, nextable = False,
                                   subIt = fst (iClone M h (world s)), lastCheck = False\<rparr>],
             world := snd (iClone M h (world s))\<rparr>"
  have c: "Clone M p s = Some (q, s')"
    unfolding q_def s'_def using assms by (rule Clone_eq)
  have lt: "p < length (objs s)" using assms(1) by (simp add: deref_Some_iff)
  then have ne: "q \<noteq> p" by (simp add: q_def)
  have fresh: "deref s q = None" by (simp add: deref_def q_def)
  have new: "deref s' q = Some \<lparr>Last = None, tags = tags it, nextable = False,
                                 subIt = fst (iClone M h (world s)), lastCheck = False\<rparr>"
    by (simp add: deref_def q_def s'_def)
  have w: "world s' = snd (iClone M h (world s))" by (simp add: s'_def)
  have old: "deref s' p = Some it"
    using assms(1) lt by (simp add: deref_def s'_def nth_append)
  have st: "deref (store q x s') p = Some it" for x
    using old ne by (simp add: deref_store)
  have fr: "deref s'' p = Some it"
    if "\<forall>c. c \<in> set cs \<longrightarrow> fst c \<noteq> p" and "run M cs s' = Some s''" for cs s''
    using run_frame [OF that(2) _ old] that(1) by blast
  from c ne fresh new w old st fr show ?thesis by blast
qed

text \<open>
  The Optional iterator of \<open>ex_miss\<close> has \<open>lastCheck\<close> false. Its clone is the
  struct at pointer 1 over a new fixed iterator, handle 2; \<open>Check\<close> of 10 on the
  clone sets the clone's \<open>lastCheck\<close> and moves the new fixed iterator, and the
  original and its fixed iterator are as before.
\<close>

theorem Clone_independent_witness:
  "deref ex_miss 0 = Some (ex_opt\<lparr>Last := Some 30, lastCheck := False\<rparr>)
   \<and> subIt (ex_opt\<lparr>Last := Some 30, lastCheck := False\<rparr>) = Some 0
   \<and> (\<exists>s' s''. Clone fixed 0 ex_miss = Some (1, s')
         \<and> deref s' 1 = Some \<lparr>Last = None, tags = [''opt''], nextable = False, subIt = Some 2, lastCheck = False\<rparr>
         \<and> run fixed [(1, CallCheck (Some 10))] s' = Some s''
         \<and> deref s'' 1 = Some \<lparr>Last = Some 10, tags = [''opt''], nextable = False, subIt = Some 2, lastCheck = True\<rparr>
         \<and> deref s'' 0 = Some (ex_opt\<lparr>Last := Some 30, lastCheck := False\<rparr>)
         \<and> fixed_get (world s'') 0 = fixed_get (world ex_miss) 0
         \<and> fx_last (fixed_get (world s'') 2) = Some 10)"
  using Clone_independent [where s = ex_miss and p = 0 and M = fixed and h = 0
      and it = "ex_opt\<lparr>Last := Some 30, lastCheck := False\<rparr>"]
  by (simp add: Clone_def Check_def NewOptionalIterator_def BaseIteratorInit_def CopyTagsFrom_def
      Tags_def ex_defs)

subsection \<open>Optimize\<close>

text \<open>
  C7. \<open>Optimize\<close> on an Optional iterator that wraps \<open>h\<close> returns the receiver
  and false, whatever the sub-iterator's \<open>Optimize\<close> answers. When that answer
  says changed, \<open>Close\<close> runs on the old sub-iterator \<open>h\<close> and the struct then
  wraps the answer's iterator; otherwise the struct is as before and the world is
  the one the sub-iterator's \<open>Optimize\<close> left.
\<close>

theorem Optimize_keeps_node:
  assumes "deref s p = Some it" and "subIt it = Some h"
    and "iOptimize M h (world s) = ((newSub, changed), w)"
  shows "\<exists>s'. Optimize M p s = Some ((p, False), s') \<and> glog s' = glog s
      \<and> (changed \<longrightarrow> world s' = iClose M h w \<and> deref s' p = Some (it\<lparr>subIt := newSub\<rparr>))
      \<and> (\<not> changed \<longrightarrow> world s' = w \<and> deref s' p = Some it)"
  using assms
  by (simp add: Optimize_def deref_store deref_world_update world_store glog_store)

text \<open>
  The first fixed iterator is kept. The second, over no value, is replaced by a new
  one with handle 2 and closed; the Optional iterator still answers itself and
  false.
\<close>

theorem Optimize_keeps_node_witness:
  "deref ex_state 0 = Some ex_opt \<and> subIt ex_opt = Some 0
   \<and> iOptimize fixed 0 (world ex_state) = ((Some 0, False), ex_world)
   \<and> Optimize fixed 0 ex_state = Some ((0, False), ex_state)
   \<and> deref ex_empty 0 = Some (ex_opt\<lparr>subIt := Some 1\<rparr>) \<and> subIt (ex_opt\<lparr>subIt := Some 1\<rparr>) = Some 1
   \<and> iOptimize fixed 1 (world ex_empty) = ((Some 2, True), ex_world @ [ex_world ! 1])
   \<and> (\<exists>s'. Optimize fixed 0 ex_empty = Some ((0, False), s')
         \<and> deref s' 0 = Some (ex_opt\<lparr>subIt := Some 2\<rparr>)
         \<and> fx_closed (world s' ! 1))"
  using Optimize_keeps_node [where s = ex_state and p = 0 and M = fixed and h = 0 and it = ex_opt
      and newSub = "Some 0" and changed = False and w = ex_world]
    Optimize_keeps_node [where s = ex_empty and p = 0 and M = fixed and h = 1
      and it = "ex_opt\<lparr>subIt := Some 1\<rparr>" and newSub = "Some 2" and changed = True
      and w = "ex_world @ [ex_world ! 1]"]
  by (simp add: Optimize_def ex_empty_def ex_defs)

subsection \<open>GetStats\<close>

text \<open>
  C8, as amended. For every sub-iterator \<open>h\<close> whose \<open>GetStats\<close> answers \<open>st\<close>,
  \<open>GetStats\<close> on an Optional iterator that wraps \<open>h\<close> returns the \<open>CheckCost\<close>
  and the \<open>Size\<close> of \<open>st\<close>, and as \<open>NextCost\<close> the fixed value \<open>2^62\<close>, whatever
  the \<open>NextCost\<close> of \<open>st\<close>. That value is below the largest \<open>int64\<close>, \<open>2^63 - 1\<close>.
\<close>

theorem GetStats_costs:
  assumes "deref s p = Some it" and "subIt it = Some h"
    and "iGetStats M h (world s) = (Some st, w)"
  shows "\<exists>r. GetStats M p s = Some (r, s\<lparr>world := w\<rparr>)
      \<and> CheckCost r = CheckCost st \<and> Size r = Size st
      \<and> NextCost r = 2 ^ 62 \<and> sint (NextCost r) < sint MaxInt64"
  using assms by (simp add: GetStats_def MaxInt64_def)

theorem GetStats_costs_witness:
  "deref ex_state 0 = Some ex_opt \<and> subIt ex_opt = Some 0
   \<and> iGetStats fixed 0 (world ex_state) = (Some \<lparr>CheckCost = 1, NextCost = 7, Size = 2\<rparr>, ex_world)
   \<and> GetStats fixed 0 ex_state = Some (\<lparr>CheckCost = 1, NextCost = 2 ^ 62, Size = 2\<rparr>, ex_state)"
  using GetStats_costs [where s = ex_state and p = 0 and M = fixed and h = 0 and it = ex_opt
      and st = "\<lparr>CheckCost = 1, NextCost = 7, Size = 2\<rparr>" and w = ex_world]
  by (simp add: GetStats_def ex_defs)

text \<open>
  C8 as stated fails: over the first fixed iterator \<open>NextCost\<close> is
  4611686018427387904, and the largest \<open>int64\<close> is 9223372036854775807.
\<close>

theorem GetStats_NextCost_not_maximal:
  "GetStats fixed 0 ex_state
     = Some (\<lparr>CheckCost = 1, NextCost = 4611686018427387904, Size = 2\<rparr>, ex_state)
   \<and> NextCost (fst (the (GetStats fixed 0 ex_state))) \<noteq> MaxInt64
   \<and> sint (NextCost (fst (the (GetStats fixed 0 ex_state)))) = 4611686018427387904
   \<and> sint MaxInt64 = 9223372036854775807"
  by (simp add: GetStats_def MaxInt64_def ex_defs)

end
